theory Spec2Isabelle
  imports Complex_Main
begin

section \<open>Mortgage amortization: the two \<open>house.py\<close> modules\<close>

text \<open>
  The repository holds two variants of the class \<open>Mortgage\<close>:
  \<^item> \<open>src/house.py\<close>: the payment is rounded to 2 digits, the loop accrues interest at
    the semi-annually compounded rate and rounds it to 2 digits (suffix \<open>_ca\<close> below,
    after its docstring: "Canadian mortgages are dumb like that");
  \<^item> \<open>src/src/house.py\<close>: the periodic rate is \<open>rate / 12\<close>, payment and interest are
    rounded to 0 digits, and a tax deduction is laid over the schedule (suffix \<open>_nl\<close>).

  Python floats are doubles. Every arithmetic operation of the loop takes its rounding as
  a parameter \<open>fl\<close>, applied to the exact result of the operation: \<open>fl64\<close>, the nearest
  double, for the code as it runs, and the identity \<open>exact\<close> for exact arithmetic. A
  property stated for every \<open>fl\<close> holds of both. With \<open>fl64\<close> the loop of
  \<open>src/src/house.py\<close> is the code's, operation by operation. What is not modelled to the
  last bit:
  \<^item> the payment, and the two rates of \<open>src/house.py\<close>: they are powers and twelfth
    roots, and are the exact values whatever \<open>fl\<close> is (the payment of
    \<open>src/src/house.py\<close> is a whole number, which the rounding of a power changes only
    next to a tie);
  \<^item> rounding to 2 digits in \<open>src/house.py\<close>: it is the double nearest to the decimal
    rounding of the exact value, as Python's \<open>round\<close> gives it, where numpy multiplies,
    rounds and divides;
  \<^item> infinities and NaN: the payment is numpy's only where that is a finite number, which
    it is for \<open>years > 0\<close> and \<open>rate >= -1\<close> (with no period numpy divides by zero, and
    below \<open>-1\<close> the power of \<open>src/house.py\<close> leaves the real numbers).
\<close>

subsection \<open>Numbers\<close>

text \<open>Round to the nearest integer, ties to the even one (Python 3, numpy, pandas).\<close>

definition round_half_even :: "real \<Rightarrow> int" where
  "round_half_even x =
     (let f = \<lfloor>x\<rfloor>; d = x - of_int f
      in if d < 1 / 2 then f
         else if 1 / 2 < d then f + 1
         else if even f then f else f + 1)"

text \<open>\<open>round(x, ndigits)\<close> for \<open>ndigits\<close> 0 or 2, the only values in the source.\<close>

definition py_round :: "real \<Rightarrow> nat \<Rightarrow> real" where
  "py_round x ndigits = of_int (round_half_even (x * 10 ^ ndigits)) / 10 ^ ndigits"



abbreviation (input) exact :: "real \<Rightarrow> real" where
  "exact \<equiv> (\<lambda>x. x)"

text \<open>
  \<open>numpy_financial.pmt(rate, nper, pv)\<close> with its defaults \<open>fv = 0\<close>, \<open>when = 'end'\<close>.
  The library is not part of the repository; this is its formula:
  \<open>temp = (1 + rate) ** nper\<close>, \<open>fact = nper\<close> where \<open>rate == 0\<close> and
  \<open>(1 + rate * when) * (temp - 1) / rate\<close> elsewhere, result \<open>-(fv + pv * temp) / fact\<close>.
\<close>

definition npf_pmt :: "real \<Rightarrow> int \<Rightarrow> real \<Rightarrow> real" where
  "npf_pmt r nper pv =
     (let temp = (1 + r) powi nper;
          fact = (if r = 0 then of_int nper else (1 + r * 0) * (temp - 1) / r)
      in - (0 + pv * temp) / fact)"

subsection \<open>Dates\<close>

datatype error = InvalidLoanSpec | NonTerminatingSchedule | TypeError | KeyError | ValueError

record date =
  year :: int
  month :: int
  day :: int

text \<open>
  \<open>d + relativedelta(months=1)\<close> for a date on the first of a month. \<open>datetime.date\<close>
  ends with the year 9999 (\<open>datetime.MAXYEAR\<close>): a month added to December 9999 raises
  \<open>ValueError\<close>.
\<close>

definition add_month :: "date \<Rightarrow> error + date" where
  "add_month d =
     (let y = (if month d = 12 then year d + 1 else year d);
          mo = (if month d = 12 then 1 else month d + 1)
      in if 9999 < y then Inl ValueError else Inr (d\<lparr>year := y, month := mo\<rparr>))"

text \<open>\<open>date.today().replace(day=1) + relativedelta(months=1)\<close>; the clock is the
  argument \<open>today\<close>.\<close>

definition first_start_date :: "date \<Rightarrow> error + date" where
  "first_start_date today = add_month (today\<lparr>day := 1\<rparr>)"

text \<open>
  The months that date arithmetic can still add to a date: none to December 9999.
\<close>

definition months_left :: "date \<Rightarrow> int" where
  "months_left d = (9999 - year d) * 12 + (12 - month d)"

subsection \<open>The class \<open>Mortgage\<close>\<close>

record mortgage =
  principal :: real
  years :: int
  rate :: real

text \<open>\<open>src/src/house.py\<close> adds the fictitious income (default \<open>None\<close>; otherwise
  one value per month, as \<open>all(...)\<close> iterates over it) and the deduction rate.\<close>

record mortgage_nl = mortgage +
  monthly_fictitious_income :: "real list option"
  deduction_rate :: real

text \<open>\<open>Mortgage.__init__\<close> of \<open>src/house.py\<close>: three assignments, no check.\<close>

definition Mortgage_init :: "real \<Rightarrow> int \<Rightarrow> real \<Rightarrow> error + mortgage" where
  "Mortgage_init p y r = Inr \<lparr>principal = p, years = y, rate = r\<rparr>"

text \<open>\<open>Mortgage.__init__\<close> of \<open>src/src/house.py\<close>; the deduction rate is hardcoded.\<close>

definition Mortgage_init_nl :: "real \<Rightarrow> int \<Rightarrow> real \<Rightarrow> real list option \<Rightarrow> error + mortgage_nl" where
  "Mortgage_init_nl p y r inc =
     Inr \<lparr>principal = p, years = y, rate = r,
          monthly_fictitious_income = inc, deduction_rate = 3707 / 10000\<rparr>"


subsection \<open>\<open>monthly_payment\<close>\<close>

text \<open>\<open>src/house.py\<close>: \<open>periodic_interest_rate = (1 + rate) ** (1 / 12) - 1\<close>.\<close>

definition monthly_payment_rate_ca :: "'a mortgage_scheme \<Rightarrow> real" where
  "monthly_payment_rate_ca m = (1 + rate m) powr (1 / 12) - 1"

definition monthly_payment_ca :: "'a mortgage_scheme \<Rightarrow> real" where
  "monthly_payment_ca m =
     (let periodic_interest_rate = monthly_payment_rate_ca m;
          periods = years m * 12
      in - py_round (npf_pmt periodic_interest_rate periods (principal m)) 2)"

text \<open>\<open>src/src/house.py\<close>: \<open>periodic_interest_rate = rate / 12\<close>, rounded to 0 digits.\<close>

definition monthly_payment_nl :: "'a mortgage_scheme \<Rightarrow> real" where
  "monthly_payment_nl m =
     (let periodic_interest_rate = rate m / 12;
          periods = years m * 12
      in - py_round (npf_pmt periodic_interest_rate periods (principal m)) 0)"

subsection \<open>The generator \<open>amortizdict\<close>\<close>

text \<open>The \<open>OrderedDict\<close> yielded for one period.\<close>

record period =
  Date :: date
  Period :: int
  Begin_balance :: real
  Payment :: real
  Principal :: real
  Interest :: real
  Additional_payment :: real
  End_balance :: real

text \<open>The local variables that live across iterations of the \<open>while\<close> loop.\<close>

record loop_state =
  pmt :: real
  adp :: real
  per :: int
  beg_balance :: real
  end_balance :: real
  start_date :: date

text \<open>
  One pass through the loop body, the same text in both files but for the number of
  digits of \<open>round\<close>: the yielded dictionary and the variables after the pass, but for
  \<open>start_date += date_increment\<close>, the one statement that can raise, which \<open>next_month\<close>
  takes. \<open>pmt\<close> and \<open>adp\<close> are overwritten by their clipped values. With \<open>fl64\<close> for
  \<open>fl\<close> each line is the line of the source in doubles; rounding to 0 digits gives an
  integer, which \<open>fl64\<close> leaves as it is.
\<close>

definition loop_body :: "(real \<Rightarrow> real) \<Rightarrow> real \<Rightarrow> nat \<Rightarrow> loop_state \<Rightarrow> period \<times> loop_state" where
  "loop_body fl periodic_interest_rate ndigits s =
     (let interest = fl (py_round (fl (periodic_interest_rate * beg_balance s)) ndigits);
          pmt1 = min (pmt s) (fl (beg_balance s + interest));
          principal1 = fl (pmt1 - interest);
          adp1 = min (adp s) (fl (beg_balance s - principal1));
          end_balance1 = fl (beg_balance s - fl (principal1 + adp1))
      in (\<lparr>Date = start_date s, Period = per s, Begin_balance = beg_balance s,
           Payment = pmt1, Principal = principal1, Interest = interest,
           Additional_payment = adp1, End_balance = end_balance1\<rparr>,
          \<lparr>pmt = pmt1, adp = adp1, per = per s + 1, beg_balance = end_balance1,
           end_balance = end_balance1, start_date = start_date s\<rparr>))"

text \<open>\<open>start_date += date_increment\<close>.\<close>

definition next_month :: "loop_state \<Rightarrow> error + loop_state" where
  "next_month s =
     (case add_month (start_date s) of
        Inl e \<Rightarrow> Inl e
      | Inr d \<Rightarrow> Inr (s\<lparr>start_date := d\<rparr>))"

text \<open>
  \<open>while end_balance > 0\<close>, consumed to its end as \<open>pd.DataFrame(amortizdict())\<close> does.
  The loop is left when the end balance is no longer positive, or by the \<open>ValueError\<close> of
  the date; it checks nothing else, so it may run for long: the second argument is fuel,
  and \<open>None\<close> says that the generator was still yielding when the fuel ran out. An
  exception leaves nothing of the rows yielded before it.
\<close>

fun while_loop :: "(real \<Rightarrow> real) \<Rightarrow> nat \<Rightarrow> real \<Rightarrow> nat \<Rightarrow> loop_state \<Rightarrow> (error + period list) option" where
  "while_loop fl 0 r nd s = (if 0 < end_balance s then None else Some (Inr []))"
| "while_loop fl (Suc fuel) r nd s =
     (if 0 < end_balance s
      then (case loop_body fl r nd s of
              (row, s1) \<Rightarrow>
                (case next_month s1 of
                   Inl e \<Rightarrow> Some (Inl e)
                 | Inr s2 \<Rightarrow> map_option (map_sum id (Cons row)) (while_loop fl fuel r nd s2)))
      else Some (Inr []))"

text \<open>The first \<open>k\<close> dictionaries the generator yields (all of them when it stops or
  raises earlier).\<close>

fun yielded :: "(real \<Rightarrow> real) \<Rightarrow> nat \<Rightarrow> real \<Rightarrow> nat \<Rightarrow> loop_state \<Rightarrow> period list" where
  "yielded fl 0 r nd s = []"
| "yielded fl (Suc k) r nd s =
     (if 0 < end_balance s
      then (case loop_body fl r nd s of
              (row, s1) \<Rightarrow>
                row # (case next_month s1 of
                         Inl e \<Rightarrow> []
                       | Inr s2 \<Rightarrow> yielded fl k r nd s2))
      else [])"

text \<open>The variables as initialised before the loop, \<open>start_date\<close> being the first of the
  month after today.\<close>

definition init_state :: "real \<Rightarrow> real \<Rightarrow> real \<Rightarrow> date \<Rightarrow> loop_state" where
  "init_state pmt0 adp0 principal0 start =
     \<lparr>pmt = pmt0, adp = adp0, per = 1, beg_balance = principal0,
      end_balance = principal0, start_date = start\<rparr>"

text \<open>The generator from its first line: the variables are set, and the loop runs.\<close>

definition generator :: "(real \<Rightarrow> real) \<Rightarrow> nat \<Rightarrow> real \<Rightarrow> nat \<Rightarrow> real \<Rightarrow> real \<Rightarrow> real \<Rightarrow> date \<Rightarrow>
    (error + period list) option" where
  "generator fl fuel r nd pmt0 adp0 principal0 today =
     (case first_start_date today of
        Inl e \<Rightarrow> Some (Inl e)
      | Inr start \<Rightarrow> while_loop fl fuel r nd (init_state pmt0 adp0 principal0 start))"

definition generated :: "(real \<Rightarrow> real) \<Rightarrow> nat \<Rightarrow> real \<Rightarrow> nat \<Rightarrow> real \<Rightarrow> real \<Rightarrow> real \<Rightarrow> date \<Rightarrow>
    period list" where
  "generated fl k r nd pmt0 adp0 principal0 today =
     (case first_start_date today of
        Inl e \<Rightarrow> []
      | Inr start \<Rightarrow> yielded fl k r nd (init_state pmt0 adp0 principal0 start))"

text \<open>\<open>src/house.py\<close>: \<open>rate = (1 + (self.rate / 2)) ** 2 - 1\<close>, then
  \<open>periodic_interest_rate = (1 + rate) ** (1 / 12) - 1\<close>.\<close>

definition amortizdict_rate_ca :: "'a mortgage_scheme \<Rightarrow> real" where
  "amortizdict_rate_ca m =
     (let rate1 = (1 + rate m / 2) ^ 2 - 1 in (1 + rate1) powr (1 / 12) - 1)"

definition amortizdict_ca :: "(real \<Rightarrow> real) \<Rightarrow> nat \<Rightarrow> 'a mortgage_scheme \<Rightarrow> real \<Rightarrow> date \<Rightarrow>
    (error + period list) option" where
  "amortizdict_ca fl fuel m addl_pmt today =
     generator fl fuel (fl (amortizdict_rate_ca m)) 2
       (monthly_payment_ca m) addl_pmt (principal m) today"

definition yielded_ca :: "(real \<Rightarrow> real) \<Rightarrow> nat \<Rightarrow> 'a mortgage_scheme \<Rightarrow> real \<Rightarrow> date \<Rightarrow> period list" where
  "yielded_ca fl k m addl_pmt today =
     generated fl k (fl (amortizdict_rate_ca m)) 2
       (monthly_payment_ca m) addl_pmt (principal m) today"

text \<open>\<open>src/src/house.py\<close>: \<open>periodic_interest_rate = self.rate / 12\<close>.\<close>

definition amortizdict_nl :: "(real \<Rightarrow> real) \<Rightarrow> nat \<Rightarrow> 'a mortgage_scheme \<Rightarrow> real \<Rightarrow> date \<Rightarrow>
    (error + period list) option" where
  "amortizdict_nl fl fuel m addl_pmt today =
     generator fl fuel (fl (rate m / 12)) 0
       (monthly_payment_nl m) addl_pmt (principal m) today"

definition yielded_nl :: "(real \<Rightarrow> real) \<Rightarrow> nat \<Rightarrow> 'a mortgage_scheme \<Rightarrow> real \<Rightarrow> date \<Rightarrow> period list" where
  "yielded_nl fl k m addl_pmt today =
     generated fl k (fl (rate m / 12)) 0
       (monthly_payment_nl m) addl_pmt (principal m) today"

subsection \<open>\<open>amortize\<close>: the data frame\<close>

text \<open>
  One row of the returned data frame: \<open>Date\<close> is the index, \<open>Period\<close> is dropped and
  \<open>total_payment\<close> is added. The dates of the yielded dictionaries are the first days of
  consecutive months, so every bin of \<open>resample("MS")\<close> holds exactly one of them, and
  \<open>max\<close>, \<open>sum\<close> and \<open>min\<close> of a single value are that value.
\<close>

record df_row =
  df_Date :: date
  df_Begin_balance :: real
  df_Payment :: real
  df_Principal :: real
  df_Interest :: real
  df_Additional_payment :: real
  df_End_balance :: real
  df_total_payment :: real

definition to_df_row :: "(real \<Rightarrow> real) \<Rightarrow> period \<Rightarrow> df_row" where
  "to_df_row fl row =
     \<lparr>df_Date = Date row, df_Begin_balance = Begin_balance row, df_Payment = Payment row,
      df_Principal = Principal row, df_Interest = Interest row,
      df_Additional_payment = Additional_payment row, df_End_balance = End_balance row,
      df_total_payment = fl (Payment row + Additional_payment row)\<rparr>"

text \<open>
  \<open>pd.DataFrame(amortizdict())\<close> and the chain of calls on it, up to \<open>total_payment\<close>.
  A generator that yields nothing gives a frame without columns, where \<open>df["Date"]\<close>
  raises \<open>KeyError\<close>. The dates are taken to be within the range of the timestamps of
  pandas, which depends on its version (nanoseconds end in April 2262, and
  \<open>pd.to_datetime\<close> raises a \<open>ValueError\<close> past them).
\<close>

definition data_frame :: "(real \<Rightarrow> real) \<Rightarrow> period list \<Rightarrow> error + df_row list" where
  "data_frame fl rows = (if rows = [] then Inl KeyError else Inr (map (to_df_row fl) rows))"

text \<open>\<open>Mortgage.amortize\<close> of \<open>src/house.py\<close>; \<open>None\<close> when the generator does not
  stop within the fuel.\<close>

definition amortize_ca :: "(real \<Rightarrow> real) \<Rightarrow> nat \<Rightarrow> 'a mortgage_scheme \<Rightarrow> real \<Rightarrow> date \<Rightarrow>
    (error + df_row list) option" where
  "amortize_ca fl fuel m addl_pmt today =
     map_option (\<lambda>res. case res of Inl e \<Rightarrow> Inl e | Inr rows \<Rightarrow> data_frame fl rows)
       (amortizdict_ca fl fuel m addl_pmt today)"

text \<open>The rows of \<open>src/src/house.py\<close> carry two more columns.\<close>

record df_row_nl = df_row +
  df_Tax_deduction :: real
  df_Net_interest :: real

text \<open>
  The lines after the data frame is built, for one row and the income of its month:
  \<open>Tax deduction = (deduction_rate * (income - Interest)).round(0)\<close>,
  \<open>Net interest = Interest + Tax deduction\<close>, \<open>total_payment += Tax deduction\<close>.
\<close>

definition tax_row :: "(real \<Rightarrow> real) \<Rightarrow> real \<Rightarrow> real \<Rightarrow> df_row \<Rightarrow> df_row_nl" where
  "tax_row fl dr income row =
     (let tax_deduction = fl (py_round (fl (dr * fl (income - df_Interest row))) 0)
      in df_row.extend (row\<lparr>df_total_payment := fl (df_total_payment row + tax_deduction)\<rparr>)
           (df_row_nl.fields tax_deduction (fl (df_Interest row + tax_deduction))))"

text \<open>
  \<open>if all(self.monthly_fictitious_income):\<close> and the three assignments that follow.
  \<^item> \<open>all(None)\<close> raises \<open>TypeError\<close>: \<open>None\<close> is not iterable.
  \<^item> When some income is zero the \<open>if\<close> is skipped, and the next line reads the column
    \<open>Tax deduction\<close> that was never set: \<open>KeyError\<close>.
  \<^item> Otherwise the incomes are subtracted from the column \<open>Interest\<close> element by element,
    a single income being broadcast, and any other length raising \<open>ValueError\<close>.
\<close>

definition tax_overlay :: "(real \<Rightarrow> real) \<Rightarrow> mortgage_nl \<Rightarrow> df_row list \<Rightarrow> error + df_row_nl list" where
  "tax_overlay fl m df =
     (case monthly_fictitious_income m of
        None \<Rightarrow> Inl TypeError
      | Some incomes \<Rightarrow>
          if list_all (\<lambda>x. x \<noteq> 0) incomes
          then (if length incomes = length df
                then Inr (map2 (tax_row fl (deduction_rate m)) incomes df)
                else if length incomes = 1
                then Inr (map (tax_row fl (deduction_rate m) (hd incomes)) df)
                else Inl ValueError)
          else Inl KeyError)"

text \<open>\<open>Mortgage.amortize\<close> of \<open>src/src/house.py\<close>: the data frame is built first, from the
  whole generator, and the tax lines run on it.\<close>

definition amortize_nl :: "(real \<Rightarrow> real) \<Rightarrow> nat \<Rightarrow> mortgage_nl \<Rightarrow> real \<Rightarrow> date \<Rightarrow>
    (error + df_row_nl list) option" where
  "amortize_nl fl fuel m addl_pmt today =
     map_option
       (\<lambda>res. case res of
                Inl e \<Rightarrow> Inl e
              | Inr rows \<Rightarrow> (case data_frame fl rows of Inl e \<Rightarrow> Inl e | Inr df \<Rightarrow> tax_overlay fl m df))
       (amortizdict_nl fl fuel m addl_pmt today)"

subsection \<open>Inputs used below\<close>

abbreviation today0 :: date where
  "today0 \<equiv> \<lparr>year = 2024, month = 1, day = 15\<rparr>"

abbreviation today1 :: date where
  "today1 \<equiv> \<lparr>year = 2024, month = 2, day = 15\<rparr>"

text \<open>\<open>Mortgage(300000, 30, 0.04)\<close> of \<open>src/house.py\<close>.\<close>

abbreviation loan_300k :: mortgage where
  "loan_300k \<equiv> \<lparr>principal = 300000, years = 30, rate = 4 / 100\<rparr>"

text \<open>\<open>Mortgage(1200, 1, 0)\<close> of \<open>src/house.py\<close>, a loan without interest.\<close>

abbreviation loan_0 :: mortgage where
  "loan_0 \<equiv> \<lparr>principal = 1200, years = 1, rate = 0\<rparr>"

text \<open>\<open>Mortgage(100, 30, 0.12)\<close>, \<open>Mortgage(1000, 1, 0.06)\<close>, \<open>Mortgage(37, 1, -0.96)\<close> and
  \<open>Mortgage(706, 1, 0.1875)\<close> of \<open>src/src/house.py\<close>, the income left at its default.\<close>

abbreviation loan_100 :: mortgage_nl where
  "loan_100 \<equiv> \<lparr>principal = 100, years = 30, rate = 12 / 100,
     monthly_fictitious_income = None, deduction_rate = 3707 / 10000\<rparr>"

abbreviation loan_1000 :: mortgage_nl where
  "loan_1000 \<equiv> \<lparr>principal = 1000, years = 1, rate = 6 / 100,
     monthly_fictitious_income = None, deduction_rate = 3707 / 10000\<rparr>"



section \<open>Properties\<close>

subsection \<open>Rounding\<close>


lemma rhe_lower: "x - 1 / 2 \<le> of_int (round_half_even x)"
  unfolding round_half_even_def Let_def by (auto; linarith)

lemma rhe_upper: "of_int (round_half_even x) \<le> x + 1 / 2"
  unfolding round_half_even_def Let_def by (auto; linarith)

lemma rhe_of_int [simp]: "round_half_even (of_int n) = n"
  by (simp add: round_half_even_def)

lemma rhe_unique:
  assumes "of_int n - 1 / 2 < x" "x < of_int n + 1 / 2"
  shows "round_half_even x = n"
proof -
  have "of_int (round_half_even x) < (of_int n :: real) + 1"
    using rhe_upper [of x] assms by linarith
  moreover have "(of_int n :: real) - 1 < of_int (round_half_even x)"
    using rhe_lower [of x] assms by linarith
  ultimately show ?thesis by linarith
qed



lemma py_round_0 [simp]: "py_round 0 nd = 0"
  by (simp add: py_round_def round_half_even_def)


subsection \<open>The loop, whatever the arithmetic\<close>

lemma add_month_error: "add_month d = Inl e \<Longrightarrow> e = ValueError"
  by (simp add: add_month_def Let_def split: if_splits)


lemma next_month_fields:
  "next_month s1 = Inr s2 \<Longrightarrow>
   pmt s2 = pmt s1 \<and> adp s2 = adp s1 \<and> per s2 = per s1 \<and>
   beg_balance s2 = beg_balance s1 \<and> end_balance s2 = end_balance s1"
  by (auto simp: next_month_def split: sum.splits)



lemma next_month_Inl:
  "add_month (start_date s1) = Inl e \<Longrightarrow> next_month s1 = Inl e"
  by (simp add: next_month_def)

lemma cons_result_Inr:
  "map_option (map_sum id (Cons row)) x = Some (Inr rows) \<longleftrightarrow>
     (\<exists>rest. x = Some (Inr rest) \<and> rows = row # rest)"
proof (cases x)
  case None
  then show ?thesis by simp
next
  case (Some res)
  then show ?thesis by (cases res) auto
qed


lemma loop_body_end_balance:
  "end_balance (snd (loop_body fl r nd s)) = End_balance (fst (loop_body fl r nd s))"
  by (simp add: loop_body_def Let_def)


lemma loop_body_start: "start_date (snd (loop_body fl r nd s)) = start_date s"
  by (simp add: loop_body_def Let_def)

text \<open>What a pass of the loop that returns rows is made of.\<close>

lemma while_loop_Suc:
  assumes "while_loop fl (Suc n) r nd s = Some (Inr rows)" "0 < end_balance s"
  shows "\<exists>s2 rest. next_month (snd (loop_body fl r nd s)) = Inr s2 \<and>
           while_loop fl n r nd s2 = Some (Inr rest) \<and>
           rows = fst (loop_body fl r nd s) # rest"
proof (cases "next_month (snd (loop_body fl r nd s))")
  case (Inl e)
  with assms show ?thesis by (simp add: case_prod_beta)
next
  case (Inr s2)
  with assms have "map_option (map_sum id (Cons (fst (loop_body fl r nd s)))) (while_loop fl n r nd s2)
      = Some (Inr rows)"
    by (simp add: case_prod_beta del: map_option_eq_Some)
  then obtain rest where "while_loop fl n r nd s2 = Some (Inr rest)"
    "rows = fst (loop_body fl r nd s) # rest"
    unfolding cons_result_Inr by blast
  with Inr show ?thesis by blast
qed

lemma while_loop_pos:
  "while_loop fl n r nd s = Some (Inr rows) \<Longrightarrow> rows \<noteq> [] \<Longrightarrow> 0 < end_balance s"
  by (cases n; cases "0 < end_balance s") simp_all

lemma while_loop_stop: "\<not> 0 < end_balance s \<Longrightarrow> while_loop fl n r nd s = Some (Inr [])"
  by (cases n) auto

lemma while_loop_empty:
  "while_loop fl n r nd s = Some (Inr []) \<Longrightarrow> \<not> 0 < end_balance s"
proof (cases n)
  case 0
  then show "while_loop fl n r nd s = Some (Inr []) \<Longrightarrow> \<not> 0 < end_balance s"
    by (simp split: if_splits)
next
  case (Suc j)
  show "while_loop fl n r nd s = Some (Inr []) \<Longrightarrow> \<not> 0 < end_balance s"
  proof
    assume a: "while_loop fl n r nd s = Some (Inr [])" and "0 < end_balance s"
    with Suc while_loop_Suc [of fl j r nd s "[]"] show False by simp
  qed
qed

lemma yielded_Suc_mem:
  assumes "row \<in> set (yielded fl (Suc k) r nd s)"
  shows "0 < end_balance s \<and>
         (row = fst (loop_body fl r nd s) \<or>
          (\<exists>s2. next_month (snd (loop_body fl r nd s)) = Inr s2 \<and> row \<in> set (yielded fl k r nd s2)))"
proof (cases "0 < end_balance s")
  case False
  with assms show ?thesis by simp
next
  case True
  show ?thesis
  proof (cases "next_month (snd (loop_body fl r nd s))")
    case (Inl e)
    with True assms show ?thesis by (simp add: case_prod_beta)
  next
    case (Inr s2)
    with True assms show ?thesis by (simp add: case_prod_beta)
  qed
qed

lemma yielded_stop: "\<not> 0 < end_balance s \<Longrightarrow> yielded fl k r nd s = []"
  by (cases k) simp_all

lemma yielded_pos:
  assumes "row \<in> set (yielded fl k r nd s)"
  shows "0 < end_balance s"
proof (rule ccontr)
  assume "\<not> 0 < end_balance s"
  then have "yielded fl k r nd s = []" by (rule yielded_stop)
  with assms show False by simp
qed

lemma while_loop_yielded:
  "while_loop fl n r nd s = Some (Inr rows) \<Longrightarrow> yielded fl n r nd s = rows"
proof (induction n arbitrary: s rows)
  case 0
  then show ?case by (simp split: if_splits)
next
  case (Suc n)
  show ?case
  proof (cases "0 < end_balance s")
    case True
    from while_loop_Suc [OF Suc.prems True] obtain s2 rest
      where st: "next_month (snd (loop_body fl r nd s)) = Inr s2"
        "while_loop fl n r nd s2 = Some (Inr rest)" "rows = fst (loop_body fl r nd s) # rest"
      by blast
    from Suc.IH [OF st(2)] st(1,3) True show ?thesis by (simp add: case_prod_beta)
  next
    case False
    with Suc.prems show ?thesis by simp
  qed
qed

text \<open>A schedule that is returned ends at the first end balance that is not positive.\<close>

lemma while_loop_last:
  "while_loop fl n r nd s = Some (Inr rows) \<Longrightarrow> rows \<noteq> [] \<Longrightarrow> End_balance (last rows) \<le> 0"
proof (induction n arbitrary: s rows)
  case 0
  then show ?case by (simp split: if_splits)
next
  case (Suc n)
  from Suc.prems have pos: "0 < end_balance s" by (rule while_loop_pos)
  from while_loop_Suc [OF Suc.prems(1) pos] obtain s2 rest
    where st: "next_month (snd (loop_body fl r nd s)) = Inr s2"
      "while_loop fl n r nd s2 = Some (Inr rest)" "rows = fst (loop_body fl r nd s) # rest"
    by blast
  have e: "end_balance s2 = End_balance (fst (loop_body fl r nd s))"
    using next_month_fields [OF st(1)] loop_body_end_balance [of fl r nd s] by simp
  show ?case
  proof (cases "rest = []")
    case True
    with st(2) have "\<not> 0 < end_balance s2" by (simp add: while_loop_empty)
    with e True st(3) show ?thesis by simp
  next
    case False
    with Suc.IH [OF st(2)] st(3) show ?thesis by simp
  qed
qed






lemma generator_generated:
  "generator fl n r nd p a b today = Some (Inr rows) \<Longrightarrow> generated fl n r nd p a b today = rows"
  unfolding generator_def generated_def by (auto simp: while_loop_yielded split: sum.splits)

subsection \<open>The loop in exact arithmetic\<close>

lemma loop_body_End_balance_nonneg: "0 \<le> End_balance (fst (loop_body exact r nd s))"
  by (simp add: loop_body_def Let_def min_def)

lemma yielded_End_balance_nonneg:
  "row \<in> set (yielded exact k r nd s) \<Longrightarrow> 0 \<le> End_balance row"
proof (induction k arbitrary: s)
  case 0
  then show ?case by simp
next
  case (Suc k)
  from yielded_Suc_mem [OF Suc.prems]
  have "row = fst (loop_body exact r nd s) \<or>
      (\<exists>s2. next_month (snd (loop_body exact r nd s)) = Inr s2 \<and> row \<in> set (yielded exact k r nd s2))"
    by simp
  then show ?case
  proof
    assume "row = fst (loop_body exact r nd s)"
    with loop_body_End_balance_nonneg [of r nd s] show ?thesis by simp
  next
    assume "\<exists>s2. next_month (snd (loop_body exact r nd s)) = Inr s2 \<and> row \<in> set (yielded exact k r nd s2)"
    then obtain s2 where "row \<in> set (yielded exact k r nd s2)" by blast
    then show ?thesis by (rule Suc.IH)
  qed
qed

lemma while_loop_last_zero:
  assumes "while_loop exact n r nd s = Some (Inr rows)" "rows \<noteq> []"
  shows "End_balance (last rows) = 0"
proof -
  have "yielded exact n r nd s = rows" using assms(1) by (rule while_loop_yielded)
  with assms(2) have "last rows \<in> set (yielded exact n r nd s)" by simp
  then have "0 \<le> End_balance (last rows)" by (rule yielded_End_balance_nonneg)
  with while_loop_last [OF assms] show ?thesis by simp
qed


lemma loop_body_keeps:
  "0 \<le> adp s \<Longrightarrow> 0 < End_balance (fst (loop_body exact r nd s)) \<Longrightarrow>
   pmt (snd (loop_body exact r nd s)) = pmt s \<and> adp (snd (loop_body exact r nd s)) = adp s"
  by (simp add: loop_body_def Let_def min_def split: if_splits)


lemma loop_body_row:
  "Begin_balance (fst (loop_body exact r nd s)) = beg_balance s \<and>
   Additional_payment (fst (loop_body exact r nd s)) =
     min (adp s) (Begin_balance (fst (loop_body exact r nd s)) - Principal (fst (loop_body exact r nd s))) \<and>
   0 \<le> Begin_balance (fst (loop_body exact r nd s)) - Principal (fst (loop_body exact r nd s)) \<and>
   End_balance (fst (loop_body exact r nd s)) =
     Begin_balance (fst (loop_body exact r nd s)) - Principal (fst (loop_body exact r nd s))
       - Additional_payment (fst (loop_body exact r nd s))"
  by (simp add: loop_body_def Let_def min_def)

text \<open>
  In exact arithmetic, and for an additional payment that is not negative, every period is
  served from the amount asked for, and the additional payment is 0 when
  \<open>beg_balance - principal\<close> is: a period that was clipped ends at 0 and is the last.
\<close>

lemma yielded_additional:
  assumes "0 \<le> adp s" "row \<in> set (yielded exact k r nd s)"
  shows "Additional_payment row = min (adp s) (Begin_balance row - Principal row) \<and>
         (Begin_balance row - Principal row \<le> 0 \<longrightarrow> Additional_payment row = 0) \<and>
         (Additional_payment row < adp s \<longrightarrow> End_balance row = 0)"
  using assms
proof (induction k arbitrary: s)
  case 0
  then show ?case by simp
next
  case (Suc k)
  from yielded_Suc_mem [OF Suc.prems(2)]
  have "row = fst (loop_body exact r nd s) \<or>
      (\<exists>s2. next_month (snd (loop_body exact r nd s)) = Inr s2 \<and> row \<in> set (yielded exact k r nd s2))"
    by simp
  then show ?case
  proof
    assume "row = fst (loop_body exact r nd s)"
    with loop_body_row [of r nd s] Suc.prems(1) show ?thesis
      by (auto simp: min_def)
  next
    assume "\<exists>s2. next_month (snd (loop_body exact r nd s)) = Inr s2 \<and> row \<in> set (yielded exact k r nd s2)"
    then obtain s2 where s2: "next_month (snd (loop_body exact r nd s)) = Inr s2"
      and tl: "row \<in> set (yielded exact k r nd s2)" by blast
    from tl have "0 < end_balance s2" by (rule yielded_pos)
    with next_month_fields [OF s2] loop_body_end_balance [of exact r nd s]
    have "0 < End_balance (fst (loop_body exact r nd s))" by simp
    with loop_body_keeps [of s r nd] Suc.prems(1) next_month_fields [OF s2]
    have eq: "adp s2 = adp s" by simp
    with Suc.prems(1) have "0 \<le> adp s2" by simp
    from Suc.IH [OF this tl] show ?thesis unfolding eq .
  qed
qed




subsection \<open>Evaluation\<close>

lemma rhe_numeral [simp]:
  "round_half_even 0 = 0" "round_half_even 1 = 1" "round_half_even (numeral n) = numeral n"
  "round_half_even (- numeral n) = - numeral n"
  using rhe_of_int [of 0] rhe_of_int [of 1] rhe_of_int [of "numeral n"] rhe_of_int [of "- numeral n"]
  by simp_all


lemma yielded_numeral:
  "yielded fl (numeral k) r nd s =
     (if 0 < end_balance s
      then (case loop_body fl r nd s of
              (row, s1) \<Rightarrow>
                row # (case next_month s1 of
                         Inl e \<Rightarrow> []
                       | Inr s2 \<Rightarrow> yielded fl (pred_numeral k) r nd s2))
      else [])"
  by (simp add: numeral_eq_Suc)


lemmas run_simps =
  generated_def yielded_numeral init_state_def first_start_date_def add_month_def next_month_def
  loop_body_def py_round_def round_half_even_def Let_def

subsection \<open>Dates\<close>

lemma months_left_nonneg: "month d \<le> 12 \<Longrightarrow> year d \<le> 9999 \<Longrightarrow> 0 \<le> months_left d"
  by (simp add: months_left_def)

lemma add_month_ok:
  assumes "1 \<le> month d" "month d \<le> 12" "year d \<le> 9999" "0 < months_left d"
  shows "\<exists>d'. add_month d = Inr d' \<and> months_left d' = months_left d - 1 \<and>
           1 \<le> month d' \<and> month d' \<le> 12 \<and> year d' \<le> 9999"
  using assms by (auto simp: add_month_def months_left_def Let_def)

lemma add_month_end:
  assumes "1 \<le> month d" "month d \<le> 12" "year d \<le> 9999" "months_left d \<le> 0"
  shows "add_month d = Inl ValueError"
  using assms by (auto simp: add_month_def months_left_def Let_def)

lemma first_start_today0: "first_start_date today0 = Inr \<lparr>year = 2024, month = 2, day = 1\<rparr>"
  by (simp add: first_start_date_def add_month_def)

lemma first_start_today1: "first_start_date today1 = Inr \<lparr>year = 2024, month = 3, day = 1\<rparr>"
  by (simp add: first_start_date_def add_month_def)

text \<open>A run that yields fewer rows than it has fuel, and months enough before the end of
  the calendar, has returned.\<close>

lemma yielded_short:
  assumes "length (yielded fl n r nd s) < n"
    and "1 \<le> month (start_date s)" "month (start_date s) \<le> 12" "year (start_date s) \<le> 9999"
    and "int n \<le> months_left (start_date s)"
  shows "while_loop fl n r nd s = Some (Inr (yielded fl n r nd s))"
  using assms
proof (induction n arbitrary: s)
  case 0
  then show ?case by simp
next
  case (Suc n)
  show ?case
  proof (cases "0 < end_balance s")
    case True
    define t where "t = snd (loop_body fl r nd s)"
    have st: "start_date t = start_date s" unfolding t_def by (rule loop_body_start)
    from Suc.prems(5) have "0 < months_left (start_date s)" by simp
    from add_month_ok [OF Suc.prems(2-4) this] obtain d'
      where d': "add_month (start_date s) = Inr d'" "months_left d' = months_left (start_date s) - 1"
        "1 \<le> month d'" "month d' \<le> 12" "year d' \<le> 9999"
      by blast
    define u where "u = t\<lparr>start_date := d'\<rparr>"
    have u: "next_month t = Inr u" unfolding u_def using d'(1) st by (simp add: next_month_def)
    have y: "yielded fl (Suc n) r nd s = fst (loop_body fl r nd s) # yielded fl n r nd u"
      using True u unfolding t_def by (simp add: case_prod_beta)
    with Suc.prems(1) have "length (yielded fl n r nd u) < n" by simp
    moreover have "1 \<le> month (start_date u)" "month (start_date u) \<le> 12" "year (start_date u) \<le> 9999"
      "int n \<le> months_left (start_date u)"
      unfolding u_def using d' Suc.prems(5) by simp_all
    ultimately have "while_loop fl n r nd u = Some (Inr (yielded fl n r nd u))" by (rule Suc.IH)
    with True u y show ?thesis unfolding t_def by (simp add: case_prod_beta)
  next
    case False
    then show ?thesis by simp
  qed
qed

lemma generator_short:
  assumes "length (generated fl n r nd p a b today0) < n" "n \<le> 1000"
  shows "generator fl n r nd p a b today0 = Some (Inr (generated fl n r nd p a b today0))"
proof -
  let ?s = "init_state p a b \<lparr>year = 2024, month = 2, day = 1\<rparr>"
  have "length (yielded fl n r nd ?s) < n"
    using assms(1) unfolding generated_def first_start_today0 by simp
  moreover have "1 \<le> month (start_date ?s)" "month (start_date ?s) \<le> 12"
    "year (start_date ?s) \<le> 9999" "int n \<le> months_left (start_date ?s)"
    using assms(2) by (simp_all add: init_state_def months_left_def)
  ultimately have "while_loop fl n r nd ?s = Some (Inr (yielded fl n r nd ?s))"
    by (rule yielded_short)
  then show ?thesis unfolding generator_def generated_def first_start_today0 by simp
qed

lemma generator_short1:
  assumes "length (generated fl n r nd p a b today1) < n" "n \<le> 1000"
  shows "generator fl n r nd p a b today1 = Some (Inr (generated fl n r nd p a b today1))"
proof -
  let ?s = "init_state p a b \<lparr>year = 2024, month = 3, day = 1\<rparr>"
  have "length (yielded fl n r nd ?s) < n"
    using assms(1) unfolding generated_def first_start_today1 by simp
  moreover have "1 \<le> month (start_date ?s)" "month (start_date ?s) \<le> 12"
    "year (start_date ?s) \<le> 9999" "int n \<le> months_left (start_date ?s)"
    using assms(2) by (simp_all add: init_state_def months_left_def)
  ultimately have "while_loop fl n r nd ?s = Some (Inr (yielded fl n r nd ?s))"
    by (rule yielded_short)
  then show ?thesis unfolding generator_def generated_def first_start_today1 by simp
qed

subsection \<open>The payment and the run of \<open>Mortgage(100, 30, 0.12)\<close>\<close>

lemma npf_pmt_formula:
  "r \<noteq> 0 \<Longrightarrow> npf_pmt r n pv = - (pv * r * ((1 + r) powi n / ((1 + r) powi n - 1)))"
  by (simp add: npf_pmt_def Let_def)

text \<open>The exact payment is about 1.03, rounded to 1: exactly the first month's interest.\<close>

lemma monthly_payment_loan_100: "monthly_payment_nl loan_100 = 1"
proof -
  define t :: real where "t = (1 + 1 / 100) powi 360"
  have "1 + real 360 * (1 / 100) \<le> (1 + 1 / 100) ^ 360"
    by (rule Bernoulli_inequality) simp
  moreover have "t = (1 + 1 / 100) ^ 360"
    unfolding t_def by (simp only: power_int_numeral)
  ultimately have "1 + real 360 * (1 / 100) \<le> t" by (simp only:)
  then have t: "3 < t" by simp
  have "npf_pmt (1 / 100) 360 100 = - (100 * (1 / 100) * (t / (t - 1)))"
    unfolding t_def by (rule npf_pmt_formula) simp
  then have eq: "npf_pmt (1 / 100) 360 100 = - (t / (t - 1))" by simp
  have "t / (t - 1) < 3 / 2" using t by (simp add: field_simps)
  moreover have "1 / 2 < t / (t - 1)" using t by (simp add: field_simps)
  ultimately have "round_half_even (- (t / (t - 1))) = - 1"
    by (intro rhe_unique) simp_all
  then show ?thesis
    by (simp add: monthly_payment_nl_def eq py_round_def)
qed

text \<open>With payment 1 and balance 100 the interest is 1, the principal part 0, and the
  balance stays 100: the loop leaves this state by the end of the calendar only.\<close>

lemma stuck_step:
  assumes "pmt s = 1" "adp s = 0" "beg_balance s = 100" "end_balance s = 100"
  shows "pmt (snd (loop_body exact (1 / 100) 0 s)) = 1 \<and> adp (snd (loop_body exact (1 / 100) 0 s)) = 0 \<and>
         beg_balance (snd (loop_body exact (1 / 100) 0 s)) = 100 \<and>
         end_balance (snd (loop_body exact (1 / 100) 0 s)) = 100 \<and>
         End_balance (fst (loop_body exact (1 / 100) 0 s)) = 100"
  using assms by (simp add: loop_body_def py_round_def Let_def)

lemma stuck_never:
  "pmt s = 1 \<Longrightarrow> adp s = 0 \<Longrightarrow> beg_balance s = 100 \<Longrightarrow> end_balance s = 100 \<Longrightarrow>
   while_loop exact n (1 / 100) 0 s \<noteq> Some (Inr rows)"
proof (induction n arbitrary: s rows)
  case 0
  then show ?case by simp
next
  case (Suc n)
  show ?case
  proof
    assume a: "while_loop exact (Suc n) (1 / 100) 0 s = Some (Inr rows)"
    from Suc.prems have pos: "0 < end_balance s" by simp
    from while_loop_Suc [OF a pos] obtain s2 rest
      where s2: "next_month (snd (loop_body exact (1 / 100) 0 s)) = Inr s2"
        and rest: "while_loop exact n (1 / 100) 0 s2 = Some (Inr rest)"
      by blast
    have "pmt s2 = 1" "adp s2 = 0" "beg_balance s2 = 100" "end_balance s2 = 100"
      using stuck_step [OF Suc.prems] next_month_fields [OF s2] by simp_all
    from Suc.IH [OF this, of rest] rest show False by simp
  qed
qed

lemma stuck_run:
  assumes "pmt s = 1" "adp s = 0" "beg_balance s = 100" "end_balance s = 100"
    and "1 \<le> month (start_date s)" "month (start_date s) \<le> 12" "year (start_date s) \<le> 9999"
  shows "while_loop exact n (1 / 100) 0 s =
           (if int n \<le> months_left (start_date s) then None else Some (Inl ValueError))"
  using assms
proof (induction n arbitrary: s)
  case 0
  then show ?case by (simp add: months_left_nonneg)
next
  case (Suc n)
  define t where "t = snd (loop_body exact (1 / 100) 0 s)"
  have st: "start_date t = start_date s" unfolding t_def by (rule loop_body_start)
  have t: "pmt t = 1" "adp t = 0" "beg_balance t = 100" "end_balance t = 100"
    unfolding t_def using stuck_step [OF Suc.prems(1-4)] by simp_all
  from Suc.prems(4) have pos: "0 < end_balance s" by simp
  show ?case
  proof (cases "0 < months_left (start_date s)")
    case False
    then have "months_left (start_date s) \<le> 0" by simp
    from add_month_end [OF Suc.prems(5-7) this] st
    have "next_month t = Inl ValueError" by (simp add: next_month_def)
    with pos False show ?thesis unfolding t_def by (simp add: case_prod_beta)
  next
    case True
    from add_month_ok [OF Suc.prems(5-7) this] obtain d'
      where d': "add_month (start_date s) = Inr d'" "months_left d' = months_left (start_date s) - 1"
        "1 \<le> month d'" "month d' \<le> 12" "year d' \<le> 9999"
      by blast
    define u where "u = t\<lparr>start_date := d'\<rparr>"
    have u: "next_month t = Inr u" unfolding u_def using d'(1) st by (simp add: next_month_def)
    have "while_loop exact n (1 / 100) 0 u =
        (if int n \<le> months_left (start_date u) then None else Some (Inl ValueError))"
      by (rule Suc.IH) (use t d' in \<open>simp_all add: u_def\<close>)
    moreover have "months_left (start_date u) = months_left (start_date s) - 1"
      unfolding u_def using d'(2) by simp
    ultimately show ?thesis using pos u unfolding t_def by (simp add: case_prod_beta)
  qed
qed


subsection \<open>Twelfth roots and the run of \<open>Mortgage(300000, 30, 0.04)\<close>\<close>

lemma powr12_of_power:
  fixes x :: real
  assumes "0 < x"
  shows "(x ^ 12) powr (1 / 12) = x"
proof -
  have "(x ^ 12) powr (1 / 12) = (x powr real 12) powr (1 / 12)"
    using powr_realpow [OF assms, of 12] by (simp only:)
  also have "\<dots> = x powr (real 12 * (1 / 12))" by (rule powr_powr)
  also have "\<dots> = x" using assms by simp
  finally show ?thesis .
qed

lemma powr12_lower:
  fixes lo x :: real
  assumes "0 < lo" "lo ^ 12 \<le> x"
  shows "lo \<le> x powr (1 / 12)"
proof -
  have "(lo ^ 12) powr (1 / 12) \<le> x powr (1 / 12)"
    using assms by (intro powr_mono2) simp_all
  then show ?thesis using powr12_of_power [OF assms(1)] by simp
qed

lemma powr12_upper:
  fixes hi x :: real
  assumes "0 < hi" "0 \<le> x" "x \<le> hi ^ 12"
  shows "x powr (1 / 12) \<le> hi"
proof -
  have "x powr (1 / 12) \<le> (hi ^ 12) powr (1 / 12)"
    using assms by (intro powr_mono2) simp_all
  then show ?thesis using powr12_of_power [OF assms(1)] by simp
qed

lemma rate_ca_300k:
  "3305885 / 10 ^ 9 \<le> amortizdict_rate_ca loan_300k \<and>
   amortizdict_rate_ca loan_300k \<le> 3305895 / 10 ^ 9"
proof -
  have eq: "amortizdict_rate_ca loan_300k = (10404 / 10000) powr (1 / 12) - 1"
    by (simp add: amortizdict_rate_ca_def power2_eq_square)
  have "(1003305885 / 10 ^ 9 :: real) \<le> (10404 / 10000) powr (1 / 12)"
    by (rule powr12_lower) (simp_all add: power_divide)
  moreover have "(10404 / 10000) powr (1 / 12) \<le> (1003305895 / 10 ^ 9 :: real)"
    by (rule powr12_upper) (simp_all add: power_divide)
  ultimately show ?thesis unfolding eq by simp
qed

lemma first_Interest_300k:
  "py_round (amortizdict_rate_ca loan_300k * 300000) 2 = 99177 / 100"
proof -
  define r where "r = amortizdict_rate_ca loan_300k"
  have r: "3305885 / 10 ^ 9 \<le> r" "r \<le> 3305895 / 10 ^ 9"
    unfolding r_def using rate_ca_300k by simp_all
  have "round_half_even (r * 300000 * 10 ^ 2) = 99177"
    by (rule rhe_unique) (use r in simp_all)
  then show ?thesis unfolding r_def [symmetric] py_round_def by simp
qed

lemma first_row_300k:
  "yielded_ca exact 1 loan_300k 0 today =
     (case first_start_date today of
        Inl e \<Rightarrow> []
      | Inr start \<Rightarrow>
          [\<lparr>Date = start, Period = 1, Begin_balance = 300000,
            Payment = min (monthly_payment_ca loan_300k) (300000 + 99177 / 100),
            Principal = min (monthly_payment_ca loan_300k) (300000 + 99177 / 100) - 99177 / 100,
            Interest = 99177 / 100, Additional_payment = 0,
            End_balance = 300000 -
              (min (monthly_payment_ca loan_300k) (300000 + 99177 / 100) - 99177 / 100)\<rparr>])"
  using first_Interest_300k
  by (simp add: yielded_ca_def generated_def init_state_def loop_body_def Let_def min_def
      split: sum.splits)

lemma powr12_power_360:
  fixes x :: real
  assumes "0 < x"
  shows "(x powr (1 / 12)) ^ 360 = x ^ 30"
proof -
  have "(x powr (1 / 12)) ^ 360 = (x powr (1 / 12)) powr real 360"
    using powr_realpow [of "x powr (1 / 12)" 360] assms by simp
  also have "\<dots> = x powr (1 / 12 * real 360)" by (rule powr_powr)
  also have "\<dots> = x powr real 30" by simp
  also have "\<dots> = x ^ 30" using assms by (rule powr_realpow)
  finally show ?thesis .
qed

lemma payment_rate_300k:
  "32737395 / 10 ^ 10 \<le> monthly_payment_rate_ca loan_300k \<and>
   monthly_payment_rate_ca loan_300k \<le> 32737400 / 10 ^ 10"
proof -
  have eq: "monthly_payment_rate_ca loan_300k = (104 / 100) powr (1 / 12) - 1"
    by (simp add: monthly_payment_rate_ca_def)
  have "(10032737395 / 10 ^ 10 :: real) \<le> (104 / 100) powr (1 / 12)"
    by (rule powr12_lower) (simp_all add: power_divide)
  moreover have "(104 / 100) powr (1 / 12) \<le> (10032737400 / 10 ^ 10 :: real)"
    by (rule powr12_upper) (simp_all add: power_divide)
  ultimately show ?thesis unfolding eq by simp
qed

lemma monthly_payment_300k: "monthly_payment_ca loan_300k = 141991 / 100"
proof -
  define r where "r = monthly_payment_rate_ca loan_300k"
  define T :: real where "T = (104 / 100) ^ 30"
  have r: "32737395 / 10 ^ 10 \<le> r" "r \<le> 32737400 / 10 ^ 10"
    unfolding r_def using payment_rate_300k by simp_all
  have r1: "1 + r = (104 / 100) powr (1 / 12)"
    by (simp add: r_def monthly_payment_rate_ca_def)
  have "(1 + r) powi 360 = (1 + r) ^ 360" by (simp only: power_int_numeral)
  also have "\<dots> = T" unfolding r1 T_def by (rule powr12_power_360) simp
  finally have temp: "(1 + r) powi 360 = T" .
  have "r \<noteq> 0" using r by simp
  then have pmt: "npf_pmt r 360 300000 = - (300000 * r * (T / (T - 1)))"
    using npf_pmt_formula [of r 360 300000] temp by simp
  define c where "c = 300000 * (T / (T - 1))"
  have c: "0 < c" "(32737395 / 10 ^ 10) * c > 1419905 / 1000" "(32737400 / 10 ^ 10) * c < 1419915 / 1000"
    unfolding c_def T_def by (simp_all add: power_divide)
  have "r * c \<le> (32737400 / 10 ^ 10) * c" "(32737395 / 10 ^ 10) * c \<le> r * c"
    using r c(1) by (simp_all add: mult_right_mono)
  with c have b: "1419905 / 1000 < r * c" "r * c < 1419915 / 1000" by linarith+
  have "round_half_even (- (r * c) * 10 ^ 2) = - 141991"
    by (rule rhe_unique) (use b in simp_all)
  moreover have "npf_pmt r 360 300000 = - (r * c)" unfolding pmt c_def by simp
  moreover have "monthly_payment_ca loan_300k = - py_round (npf_pmt r 360 300000) 2"
    by (simp add: monthly_payment_ca_def r_def)
  ultimately show ?thesis by (simp add: py_round_def)
qed

subsection \<open>Runs of the loop, evaluated\<close>

lemma monthly_payment_loan_1000: "monthly_payment_nl loan_1000 = 86"
  by (simp add: monthly_payment_nl_def npf_pmt_def py_round_def round_half_even_def Let_def power_divide)

lemma End_balance_loan_1000:
  "map End_balance (yielded_nl exact 20 loan_1000 0 today0) =
     [919, 838, 756, 674, 591, 508, 425, 341, 257, 172, 87, 1, 0]"
  unfolding yielded_nl_def monthly_payment_loan_1000 by (simp add: run_simps)

lemma run_loan_1000:
  "amortizdict_nl exact 20 loan_1000 0 today0 = Some (Inr (yielded_nl exact 20 loan_1000 0 today0))"
proof -
  have "length (map End_balance (yielded_nl exact 20 loan_1000 0 today0)) = 13"
    unfolding End_balance_loan_1000 by simp
  then have "length (yielded_nl exact 20 loan_1000 0 today0) < 20" by simp
  then show ?thesis unfolding amortizdict_nl_def yielded_nl_def by (rule generator_short) simp
qed

lemma monthly_payment_loan_0: "monthly_payment_ca loan_0 = 100"
  by (simp add: monthly_payment_ca_def monthly_payment_rate_ca_def npf_pmt_def py_round_def)

lemma rate_loan_0: "amortizdict_rate_ca loan_0 = 0"
  by (simp add: amortizdict_rate_ca_def)

lemma End_balance_loan_0:
  "map End_balance (yielded_ca exact 20 loan_0 0 today0) =
     [1100, 1000, 900, 800, 700, 600, 500, 400, 300, 200, 100, 0]"
  unfolding yielded_ca_def monthly_payment_loan_0 rate_loan_0 by (simp add: run_simps)

lemma run_loan_0:
  "amortizdict_ca exact 20 loan_0 0 today0 = Some (Inr (yielded_ca exact 20 loan_0 0 today0))"
proof -
  have "length (map End_balance (yielded_ca exact 20 loan_0 0 today0)) = 12"
    unfolding End_balance_loan_0 by simp
  then have "length (yielded_ca exact 20 loan_0 0 today0) < 20" by simp
  then show ?thesis unfolding amortizdict_ca_def yielded_ca_def by (rule generator_short) simp
qed






lemma Date_loan_0_today0:
  "map Date (yielded_ca exact 20 loan_0 0 today0) =
     map (\<lambda>(y, m). \<lparr>year = y, month = m, day = 1\<rparr>)
       [(2024, 2), (2024, 3), (2024, 4), (2024, 5), (2024, 6), (2024, 7), (2024, 8),
        (2024, 9), (2024, 10), (2024, 11), (2024, 12), (2025, 1)]"
  unfolding yielded_ca_def monthly_payment_loan_0 rate_loan_0 by (simp add: run_simps)

lemma Date_loan_0_today1:
  "map Date (yielded_ca exact 20 loan_0 0 today1) =
     map (\<lambda>(y, m). \<lparr>year = y, month = m, day = 1\<rparr>)
       [(2024, 3), (2024, 4), (2024, 5), (2024, 6), (2024, 7), (2024, 8),
        (2024, 9), (2024, 10), (2024, 11), (2024, 12), (2025, 1), (2025, 2)]"
  unfolding yielded_ca_def monthly_payment_loan_0 rate_loan_0 by (simp add: run_simps)

lemma run_loan_0_today1:
  "amortizdict_ca exact 20 loan_0 0 today1 = Some (Inr (yielded_ca exact 20 loan_0 0 today1))"
proof -
  have "length (map Date (yielded_ca exact 20 loan_0 0 today1)) = 12"
    unfolding Date_loan_0_today1 by simp
  then have "length (yielded_ca exact 20 loan_0 0 today1) < 20" by simp
  then show ?thesis unfolding amortizdict_ca_def yielded_ca_def by (rule generator_short1) simp
qed

lemma df_Date_to_df_row: "map df_Date (map (to_df_row fl) rows) = map Date rows"
  by (simp add: to_df_row_def)

subsection \<open>The run of \<open>Mortgage(706, 1, 0.1875)\<close> in doubles\<close>










subsection \<open>Additional payments\<close>





subsection \<open>The tax columns\<close>

lemma amortize_nl_no_income:
  "monthly_fictitious_income m = None \<Longrightarrow>
   amortizdict_nl fl fuel m addl_pmt today = Some (Inr rows) \<Longrightarrow>
   rows \<noteq> [] \<Longrightarrow> amortize_nl fl fuel m addl_pmt today = Some (Inl TypeError)"
  by (simp add: amortize_nl_def data_frame_def tax_overlay_def)

lemma tax_row_fields:
  "df_Tax_deduction (tax_row exact dr income (to_df_row exact row)) =
     py_round (dr * (income - Interest row)) 0 \<and>
   df_Net_interest (tax_row exact dr income (to_df_row exact row)) =
     Interest row + py_round (dr * (income - Interest row)) 0 \<and>
   df_total_payment (tax_row exact dr income (to_df_row exact row)) =
     Payment row + Additional_payment row + py_round (dr * (income - Interest row)) 0"
  by (simp add: tax_row_def to_df_row_def Let_def df_row.defs df_row_nl.defs)

lemma tax_overlay_present:
  "monthly_fictitious_income m = Some incomes \<Longrightarrow> list_all (\<lambda>x. x \<noteq> 0) incomes \<Longrightarrow>
   length incomes = length df \<Longrightarrow>
   tax_overlay fl m df = Inr (map2 (tax_row fl (deduction_rate m)) incomes df)"
  by (simp add: tax_overlay_def)

subsection \<open>The clock\<close>

lemma loop_body_start_date:
  "loop_body fl r nd (s\<lparr>start_date := x\<rparr>) =
     ((fst (loop_body fl r nd s))\<lparr>Date := x\<rparr>, (snd (loop_body fl r nd s))\<lparr>start_date := x\<rparr>)"
  by (simp add: loop_body_def Let_def)

lemma erase_cons:
  "map_option (map_sum id (map (Date_update (\<lambda>_. d)))) (map_option (map_sum id (Cons row)) A) =
   map_option (map_sum id (Cons (row\<lparr>Date := d\<rparr>)))
     (map_option (map_sum id (map (Date_update (\<lambda>_. d)))) A)"
proof (cases A)
  case None
  then show ?thesis by simp
next
  case (Some res)
  then show ?thesis by (cases res) simp_all
qed

text \<open>
  Two runs that differ in the start date only: unless one of them reaches the end of the
  calendar, they return the same rows but for the dates.
\<close>

lemma while_loop_start_date:
  "while_loop fl n r nd (s\<lparr>start_date := x\<rparr>) = Some (Inl ValueError) \<or>
   while_loop fl n r nd s = Some (Inl ValueError) \<or>
   map_option (map_sum id (map (Date_update (\<lambda>_. d)))) (while_loop fl n r nd (s\<lparr>start_date := x\<rparr>)) =
   map_option (map_sum id (map (Date_update (\<lambda>_. d)))) (while_loop fl n r nd s)"
proof (induction n arbitrary: s x)
  case 0
  then show ?case by simp
next
  case (Suc n)
  show ?case
  proof (cases "0 < end_balance s")
    case False
    then show ?thesis by simp
  next
    case True
    define row where "row = fst (loop_body fl r nd s)"
    define t where "t = snd (loop_body fl r nd s)"
    have lb: "loop_body fl r nd (s\<lparr>start_date := x\<rparr>) = (row\<lparr>Date := x\<rparr>, t\<lparr>start_date := x\<rparr>)"
      unfolding row_def t_def by (rule loop_body_start_date)
    have st: "start_date t = start_date s" unfolding t_def by (rule loop_body_start)
    show ?thesis
    proof (cases "add_month x")
      case (Inl e)
      then have "e = ValueError" by (rule add_month_error)
      with Inl True lb have "while_loop fl (Suc n) r nd (s\<lparr>start_date := x\<rparr>) = Some (Inl ValueError)"
        by (simp add: next_month_def)
      then show ?thesis by blast
    next
      case dx: (Inr dx)
      show ?thesis
      proof (cases "add_month (start_date t)")
        case (Inl e)
        then have "e = ValueError" by (rule add_month_error)
        with Inl True have "while_loop fl (Suc n) r nd s = Some (Inl ValueError)"
          unfolding t_def by (simp add: next_month_def case_prod_beta)
        then show ?thesis by blast
      next
        case dt: (Inr dt)
        define u where "u = t\<lparr>start_date := dt\<rparr>"
        have ux: "u\<lparr>start_date := dx\<rparr> = t\<lparr>start_date := dx\<rparr>" unfolding u_def by simp
        have w1: "while_loop fl (Suc n) r nd (s\<lparr>start_date := x\<rparr>) =
            map_option (map_sum id (Cons (row\<lparr>Date := x\<rparr>))) (while_loop fl n r nd (u\<lparr>start_date := dx\<rparr>))"
          using True lb dx unfolding ux by (simp add: next_month_def)
        have w2: "while_loop fl (Suc n) r nd s =
            map_option (map_sum id (Cons row)) (while_loop fl n r nd u)"
          using True dt unfolding u_def t_def row_def by (simp add: next_month_def case_prod_beta)
        from Suc.IH [where s = u and x = dx]
        consider "while_loop fl n r nd (u\<lparr>start_date := dx\<rparr>) = Some (Inl ValueError)"
          | "while_loop fl n r nd u = Some (Inl ValueError)"
          | "map_option (map_sum id (map (Date_update (\<lambda>_. d)))) (while_loop fl n r nd (u\<lparr>start_date := dx\<rparr>)) =
             map_option (map_sum id (map (Date_update (\<lambda>_. d)))) (while_loop fl n r nd u)"
          by blast
        then show ?thesis
        proof cases
          case 1
          then have "while_loop fl (Suc n) r nd (s\<lparr>start_date := x\<rparr>) = Some (Inl ValueError)"
            unfolding w1 by simp
          then show ?thesis by blast
        next
          case 2
          then have "while_loop fl (Suc n) r nd s = Some (Inl ValueError)"
            unfolding w2 by simp
          then show ?thesis by blast
        next
          case 3
          have "map_option (map_sum id (map (Date_update (\<lambda>_. d))))
                  (while_loop fl (Suc n) r nd (s\<lparr>start_date := x\<rparr>)) =
                map_option (map_sum id (map (Date_update (\<lambda>_. d)))) (while_loop fl (Suc n) r nd s)"
            unfolding w1 w2 erase_cons 3 by simp
          then show ?thesis by blast
        qed
      qed
    qed
  qed
qed

lemma generator_today:
  "generator fl n r nd p a b d1 = Some (Inl ValueError) \<or>
   generator fl n r nd p a b d2 = Some (Inl ValueError) \<or>
   map_option (map_sum id (map (Date_update (\<lambda>_. d)))) (generator fl n r nd p a b d1) =
   map_option (map_sum id (map (Date_update (\<lambda>_. d)))) (generator fl n r nd p a b d2)"
proof (cases "first_start_date d1")
  case (Inl e)
  then have "e = ValueError" unfolding first_start_date_def by (rule add_month_error)
  with Inl show ?thesis by (simp add: generator_def)
next
  case x1: (Inr x1)
  show ?thesis
  proof (cases "first_start_date d2")
    case (Inl e)
    then have "e = ValueError" unfolding first_start_date_def by (rule add_month_error)
    with Inl show ?thesis by (simp add: generator_def)
  next
    case x2: (Inr x2)
    have "init_state p a b x1 = (init_state p a b x2)\<lparr>start_date := x1\<rparr>"
      by (simp add: init_state_def)
    with while_loop_start_date [where s = "init_state p a b x2" and x = x1 and d = d and fl = fl and n = n and r = r and nd = nd] x1 x2
    show ?thesis by (simp add: generator_def)
  qed
qed

lemma to_df_row_Date:
  "df_Date_update (\<lambda>_. d) (to_df_row fl row) = to_df_row fl (Date_update (\<lambda>_. d) row)"
  by (simp add: to_df_row_def)

lemma data_frame_Date:
  "map_sum id (map (df_Date_update (\<lambda>_. d))) (data_frame fl rows) =
     data_frame fl (map (Date_update (\<lambda>_. d)) rows)"
  by (simp add: data_frame_def to_df_row_Date)

lemma frame_ca_Date:
  "map_option (map_sum id (map (df_Date_update (\<lambda>_. d))))
     (map_option (\<lambda>res. case res of Inl e \<Rightarrow> Inl e | Inr rows \<Rightarrow> data_frame fl rows) A) =
   map_option (\<lambda>res. case res of Inl e \<Rightarrow> Inl e | Inr rows \<Rightarrow> data_frame fl rows)
     (map_option (map_sum id (map (Date_update (\<lambda>_. d)))) A)"
proof (cases A)
  case None
  then show ?thesis by simp
next
  case (Some res)
  then show ?thesis by (cases res) (simp_all add: data_frame_Date)
qed

lemma tax_row_Date:
  "tax_row fl dr income (df_Date_update (\<lambda>_. d) row) = df_Date_update (\<lambda>_. d) (tax_row fl dr income row)"
  by (simp add: tax_row_def Let_def df_row.defs df_row_nl.defs)

lemma map2_tax_row_Date:
  "map2 (tax_row fl dr) incomes (map (df_Date_update (\<lambda>_. d)) df) =
     map (df_Date_update (\<lambda>_. d)) (map2 (tax_row fl dr) incomes df)"
proof (induction incomes arbitrary: df)
  case Nil
  then show ?case by simp
next
  case (Cons a incomes)
  then show ?case by (cases df) (simp_all add: tax_row_Date)
qed

lemma tax_overlay_Date:
  "tax_overlay fl m (map (df_Date_update (\<lambda>_. d)) df) =
     map_sum id (map (df_Date_update (\<lambda>_. d))) (tax_overlay fl m df)"
proof (cases "monthly_fictitious_income m")
  case None
  then show ?thesis by (simp add: tax_overlay_def)
next
  case (Some incomes)
  have "map (tax_row fl (deduction_rate m) (hd incomes)) (map (df_Date_update (\<lambda>_. d)) df) =
        map (df_Date_update (\<lambda>_. d)) (map (tax_row fl (deduction_rate m) (hd incomes)) df)"
    by (simp add: tax_row_Date)
  with Some show ?thesis
    by (simp add: tax_overlay_def map2_tax_row_Date del: map_map)
qed

lemma nl_frame_Date:
  "map_sum id (map (df_Date_update (\<lambda>_. d)))
     (case data_frame fl rows of Inl e \<Rightarrow> Inl e | Inr df \<Rightarrow> tax_overlay fl m df) =
   (case data_frame fl (map (Date_update (\<lambda>_. d)) rows) of
      Inl e \<Rightarrow> Inl e | Inr df \<Rightarrow> tax_overlay fl m df)"
proof (cases "rows = []")
  case True
  then show ?thesis by (simp add: data_frame_def)
next
  case False
  then have "data_frame fl rows = Inr (map (to_df_row fl) rows)"
    and "data_frame fl (map (Date_update (\<lambda>_. d)) rows) =
           Inr (map (df_Date_update (\<lambda>_. d)) (map (to_df_row fl) rows))"
    by (simp_all add: data_frame_def to_df_row_Date)
  then show ?thesis by (simp only: sum.case tax_overlay_Date)
qed

lemma frame_nl_Date:
  "map_option (map_sum id (map (df_Date_update (\<lambda>_. d))))
     (map_option
        (\<lambda>res. case res of
                 Inl e \<Rightarrow> Inl e
               | Inr rows \<Rightarrow> (case data_frame fl rows of Inl e \<Rightarrow> Inl e | Inr df \<Rightarrow> tax_overlay fl m df)) A) =
   map_option
     (\<lambda>res. case res of
              Inl e \<Rightarrow> Inl e
            | Inr rows \<Rightarrow> (case data_frame fl rows of Inl e \<Rightarrow> Inl e | Inr df \<Rightarrow> tax_overlay fl m df))
     (map_option (map_sum id (map (Date_update (\<lambda>_. d)))) A)"
proof (cases A)
  case None
  then show ?thesis by simp
next
  case (Some res)
  show ?thesis
  proof (cases res)
    case (Inl e)
    with Some show ?thesis by simp
  next
    case (Inr rows)
    with Some show ?thesis by (simp only: option.map sum.case map_sum.simps nl_frame_Date)
  qed
qed

lemma first_start_date_month:
  "year d1 = year d2 \<Longrightarrow> month d1 = month d2 \<Longrightarrow> first_start_date d1 = first_start_date d2"
  by (cases d1; cases d2) (simp add: first_start_date_def add_month_def)

subsection \<open>\<open>Mortgage(100, 30, 0.12)\<close> to the end of the calendar\<close>

lemma generator_loan_100:
  "amortizdict_nl exact fuel loan_100 0 today = generator exact fuel (1 / 100) 0 1 0 100 today"
  unfolding amortizdict_nl_def monthly_payment_loan_100 by simp

lemma never_loan_100: "amortizdict_nl exact fuel loan_100 0 today \<noteq> Some (Inr rows)"
proof (cases "first_start_date today")
  case (Inl e)
  then show ?thesis unfolding generator_loan_100 by (simp add: generator_def)
next
  case (Inr start)
  have "while_loop exact fuel (1 / 100) 0 (init_state 1 0 100 start) \<noteq> Some (Inr rows)"
    by (rule stuck_never) (simp_all add: init_state_def)
  with Inr show ?thesis unfolding generator_loan_100 by (simp add: generator_def)
qed

lemma run_loan_100:
  "amortizdict_nl exact fuel loan_100 0 today0 =
     (if fuel < 95711 then None else Some (Inl ValueError))"
proof -
  let ?s = "init_state 1 0 100 \<lparr>year = 2024, month = 2, day = 1\<rparr>"
  have "while_loop exact fuel (1 / 100) 0 ?s =
      (if int fuel \<le> months_left (start_date ?s) then None else Some (Inl ValueError))"
    by (rule stuck_run) (simp_all add: init_state_def)
  moreover have "months_left (start_date ?s) = 95710"
    by (simp add: init_state_def months_left_def)
  moreover have "int fuel \<le> 95710 \<longleftrightarrow> fuel < 95711" by linarith
  ultimately have "while_loop exact fuel (1 / 100) 0 ?s =
      (if fuel < 95711 then None else Some (Inl ValueError))"
    by (simp only:)
  then show ?thesis unfolding generator_loan_100 generator_def first_start_today0 by simp
qed



section \<open>The claims\<close>

text \<open>
  C1. The claim: for every valid loan, \<open>amortize\<close> yields a finite schedule whose
  end balance is never negative and is 0 in the last period, the loop guard ending the
  loop on every valid input.

  In exact arithmetic the end balance of a period is never negative
  (\<open>yielded_End_balance_nonneg\<close>) and a schedule that is returned ends at a balance of 0
  (\<open>while_loop_last_zero\<close>); in doubles it ends at a balance that is not positive
  (\<open>while_loop_last\<close>). The loop guard does not end the loop on every valid input,
  though: for \<open>Mortgage(100, 30, 0.12)\<close> of \<open>src/src/house.py\<close> the generator never
  returns a schedule, whatever the day of the call. Called in January 2024 it is still
  yielding after 95710 periods; the next one is dated December 9999, and the date after
  it raises \<open>ValueError\<close>.
\<close>

theorem amortizdict_never_stops:
  "amortizdict_nl exact fuel loan_100 0 today \<noteq> Some (Inr rows) \<and>
   amortizdict_nl exact fuel loan_100 0 today0 =
     (if fuel < 95711 then None else Some (Inl ValueError))"
  using never_loan_100 [of fuel today rows] run_loan_100 [of fuel] by simp

text \<open>
  C2. The claim: the payment is the annuity payment at the periodic rate of the semi-annual
  compounding, \<open>(1 + rate / 2) ^ (2 / 12) - 1\<close>, and the loop accrues interest at that
  same rate.

  In \<open>src/house.py\<close> the loop does compound semi-annually, and the docstring of
  \<open>monthly_payment\<close> says it does too, but its rate is \<open>(1 + rate) ** (1 / 12) - 1\<close>:
  for \<open>Mortgage(300000, 30, 0.04)\<close> the payment is computed at a rate below the one the
  loop charges (about 0.0032737 against 0.0033059), which gives a payment of 1419.91
  (\<open>monthly_payment_300k\<close>).
\<close>

theorem payment_rate_differs: "monthly_payment_rate_ca loan_300k < amortizdict_rate_ca loan_300k"
proof -
  have "(104 / 100 :: real) powr (1 / 12) < (10404 / 10000) powr (1 / 12)"
    by (rule powr_less_mono2) simp_all
  then show ?thesis
    by (simp add: monthly_payment_rate_ca_def amortizdict_rate_ca_def power2_eq_square)
qed

text \<open>
  C3. The claim: for principal 300000, annual rate 0.04, 30 years, semi-annual compounding
  and no additional payment the payment is about 1432.25, the periodic rate about
  0.0032737, the first period has interest about 981.00, principal part about 451.25 and
  end balance about 299548.75, and the schedule has exactly 360 periods.

  The first interest of \<open>src/house.py\<close> is 991.77, so the claim fails whatever "about"
  allows below half a unit.
\<close>

theorem scenario_300k_counterexample:
  "\<not> (\<bar>monthly_payment_ca loan_300k - 143225 / 100\<bar> \<le> 1 / 2 \<and>
      \<bar>Interest (hd (yielded_ca exact 1 loan_300k 0 today0)) - 981\<bar> \<le> 1 / 2 \<and>
      \<bar>Principal (hd (yielded_ca exact 1 loan_300k 0 today0)) - 45125 / 100\<bar> \<le> 1 / 2 \<and>
      \<bar>End_balance (hd (yielded_ca exact 1 loan_300k 0 today0)) - 29954875 / 100\<bar> \<le> 1 / 2 \<and>
      length (yielded_ca exact 361 loan_300k 0 today0) = 360)"
proof -
  have "\<not> \<bar>Interest (hd (yielded_ca exact 1 loan_300k 0 today0)) - 981\<bar> \<le> 1 / 2"
    unfolding first_row_300k first_start_today0 by simp
  then show ?thesis by blast
qed

text \<open>
  C3 as amended: the loop's periodic rate is \<open>(1 + 0.04 / 2) ^ (2 / 12) - 1\<close>, about
  0.0033059, and the first period has begin balance 300000, interest 991.77, no additional
  payment, a principal part of the payment less 991.77 and an end balance of 300000 less
  the principal part. It is dated the first of the month after the call (and there is no
  period at all when that month is past the year 9999).
\<close>

theorem scenario_300k_first_period:
  "3305885 / 10 ^ 9 \<le> amortizdict_rate_ca loan_300k \<and>
   amortizdict_rate_ca loan_300k \<le> 3305895 / 10 ^ 9 \<and>
   (let pay = min (monthly_payment_ca loan_300k) (300000 + 99177 / 100)
    in yielded_ca exact 1 loan_300k 0 today =
         (case first_start_date today of
            Inl e \<Rightarrow> []
          | Inr start \<Rightarrow>
              [\<lparr>Date = start, Period = 1, Begin_balance = 300000,
                Payment = pay, Principal = pay - 99177 / 100, Interest = 99177 / 100,
                Additional_payment = 0, End_balance = 300000 - (pay - 99177 / 100)\<rparr>]))"
  unfolding Let_def using rate_ca_300k first_row_300k [of today] by blast




text \<open>
  C5. The claim: the payment and the construction of the loan fail with
  \<open>InvalidLoanSpec\<close> exactly when \<open>principal <= 0\<close>, \<open>years <= 0\<close> or \<open>rate < -1\<close>.

  \<open>Mortgage.__init__\<close> checks nothing: a loan with all three out of range is constructed.
  Nor does \<open>monthly_payment\<close>: for a principal of -1000 over one year at 0.06,
  \<open>src/src/house.py\<close> returns a payment of -86.
\<close>

theorem init_counterexample:
  "(- 5 :: real) \<le> 0 \<and> (0 :: int) \<le> 0 \<and> (- 2 :: real) < - 1 \<and>
   Mortgage_init (- 5) 0 (- 2) = Inr \<lparr>principal = - 5, years = 0, rate = - 2\<rparr> \<and>
   Mortgage_init (- 5) 0 (- 2) \<noteq> Inl InvalidLoanSpec \<and>
   (- 1000 :: real) \<le> 0 \<and>
   Mortgage_init_nl (- 1000) 1 (6 / 100) None =
     Inr \<lparr>principal = - 1000, years = 1, rate = 6 / 100, monthly_fictitious_income = None,
          deduction_rate = 3707 / 10000\<rparr> \<and>
   monthly_payment_nl \<lparr>principal = - 1000, years = 1, rate = 6 / 100,
      monthly_fictitious_income = None, deduction_rate = 3707 / 10000\<rparr> = - 86"
  by (simp add: Mortgage_init_def Mortgage_init_nl_def monthly_payment_nl_def npf_pmt_def
      py_round_def round_half_even_def Let_def power_divide)

text \<open>
  C5 as amended: \<open>Mortgage.__init__\<close> never fails; it stores principal, years and rate
  (and the income in \<open>src/src/house.py\<close>) as they are given, whatever their values.
\<close>

theorem init_never_fails:
  "Mortgage_init p y r = Inr \<lparr>principal = p, years = y, rate = r\<rparr> \<and>
   Mortgage_init p y r \<noteq> Inl InvalidLoanSpec \<and>
   Mortgage_init_nl p y r inc =
     Inr \<lparr>principal = p, years = y, rate = r, monthly_fictitious_income = inc,
          deduction_rate = 3707 / 10000\<rparr> \<and>
   Mortgage_init_nl p y r inc \<noteq> Inl InvalidLoanSpec"
  by (simp add: Mortgage_init_def Mortgage_init_nl_def)










text \<open>
  C9. The claim: with a fictitious income every period carries the tax deduction, the net
  interest and the total payment after tax; without one \<open>amortize\<close> still returns a
  schedule, with no tax fields.

  With incomes for every month the three columns are as the claim says
  (\<open>tax_overlay_present\<close>, \<open>tax_row_fields\<close>). Without an income, the default of
  \<open>Mortgage.__init__\<close>, \<open>all(None)\<close> raises \<open>TypeError\<close> once the schedule is built: for
  \<open>Mortgage(1000, 1, 0.06)\<close> no schedule is returned.
\<close>

theorem amortize_default_income_fails:
  "amortize_nl exact 20 loan_1000 0 today0 = Some (Inl TypeError)"
proof -
  have "yielded_nl exact 20 loan_1000 0 today0 \<noteq> []"
    using End_balance_loan_1000 by auto
  with run_loan_1000 show ?thesis by (rule amortize_nl_no_income [rotated]) simp
qed

text \<open>
  C10. The claim: two calls of \<open>amortize\<close> with equal loans return identical rows, the
  dates included, whatever else the surroundings hold.

  The first date is taken from the clock, \<open>date.today()\<close>: the same loan amortized in
  January and in February 2024 gives rows starting on the first of February and on the
  first of March.
\<close>

theorem clock_counterexample:
  "amortize_ca exact 20 loan_0 0 today0 =
     Some (Inr (map (to_df_row exact) (yielded_ca exact 20 loan_0 0 today0))) \<and>
   amortize_ca exact 20 loan_0 0 today1 =
     Some (Inr (map (to_df_row exact) (yielded_ca exact 20 loan_0 0 today1))) \<and>
   Date (hd (yielded_ca exact 20 loan_0 0 today0)) = \<lparr>year = 2024, month = 2, day = 1\<rparr> \<and>
   Date (hd (yielded_ca exact 20 loan_0 0 today1)) = \<lparr>year = 2024, month = 3, day = 1\<rparr> \<and>
   amortize_ca exact 20 loan_0 0 today0 \<noteq> amortize_ca exact 20 loan_0 0 today1"
proof -
  have n0: "yielded_ca exact 20 loan_0 0 today0 \<noteq> []" using Date_loan_0_today0 by auto
  have n1: "yielded_ca exact 20 loan_0 0 today1 \<noteq> []" using Date_loan_0_today1 by auto
  have a0: "amortize_ca exact 20 loan_0 0 today0 =
      Some (Inr (map (to_df_row exact) (yielded_ca exact 20 loan_0 0 today0)))"
    unfolding amortize_ca_def run_loan_0 using n0 by (simp add: data_frame_def)
  have a1: "amortize_ca exact 20 loan_0 0 today1 =
      Some (Inr (map (to_df_row exact) (yielded_ca exact 20 loan_0 0 today1)))"
    unfolding amortize_ca_def run_loan_0_today1 using n1 by (simp add: data_frame_def)
  have h0: "hd (map Date (yielded_ca exact 20 loan_0 0 today0)) = \<lparr>year = 2024, month = 2, day = 1\<rparr>"
    unfolding Date_loan_0_today0 by simp
  have h1: "hd (map Date (yielded_ca exact 20 loan_0 0 today1)) = \<lparr>year = 2024, month = 3, day = 1\<rparr>"
    unfolding Date_loan_0_today1 by simp
  have ne: "amortize_ca exact 20 loan_0 0 today0 \<noteq> amortize_ca exact 20 loan_0 0 today1"
  proof
    assume "amortize_ca exact 20 loan_0 0 today0 = amortize_ca exact 20 loan_0 0 today1"
    with a0 a1 have "map (to_df_row exact) (yielded_ca exact 20 loan_0 0 today0) =
        map (to_df_row exact) (yielded_ca exact 20 loan_0 0 today1)" by simp
    then have "map df_Date (map (to_df_row exact) (yielded_ca exact 20 loan_0 0 today0)) =
        map df_Date (map (to_df_row exact) (yielded_ca exact 20 loan_0 0 today1))" by (simp only:)
    then have "map Date (yielded_ca exact 20 loan_0 0 today0) = map Date (yielded_ca exact 20 loan_0 0 today1)"
      unfolding df_Date_to_df_row .
    with h0 h1 show False by simp
  qed
  from h0 n0 have g0: "Date (hd (yielded_ca exact 20 loan_0 0 today0)) = \<lparr>year = 2024, month = 2, day = 1\<rparr>"
    by (simp add: hd_map)
  from h1 n1 have g1: "Date (hd (yielded_ca exact 20 loan_0 0 today1)) = \<lparr>year = 2024, month = 3, day = 1\<rparr>"
    by (simp add: hd_map)
  from a0 a1 g0 g1 ne show ?thesis by blast
qed

text \<open>
  C10 as amended: \<open>amortize\<close> depends on the loan, the additional payment and the month of
  \<open>date.today()\<close> only: two calls in the same month return identical results, and two
  calls in different months return results that differ in the column \<open>Date\<close> at most,
  unless one of them runs into the end of the calendar and raises \<open>ValueError\<close>. This
  holds whatever the rounding of the arithmetic.
\<close>

theorem amortize_depends_on_month:
  fixes m :: "'a mortgage_scheme" and m2 :: mortgage_nl
  shows "(year d1 = year d2 \<and> month d1 = month d2 \<longrightarrow>
            amortize_ca fl fuel m addl_pmt d1 = amortize_ca fl fuel m addl_pmt d2 \<and>
            amortize_nl fl fuel m2 addl_pmt d1 = amortize_nl fl fuel m2 addl_pmt d2) \<and>
         (amortize_ca fl fuel m addl_pmt d1 = Some (Inl ValueError) \<or>
          amortize_ca fl fuel m addl_pmt d2 = Some (Inl ValueError) \<or>
          map_option (map_sum id (map (df_Date_update (\<lambda>_. d)))) (amortize_ca fl fuel m addl_pmt d1) =
            map_option (map_sum id (map (df_Date_update (\<lambda>_. d)))) (amortize_ca fl fuel m addl_pmt d2)) \<and>
         (amortize_nl fl fuel m2 addl_pmt d1 = Some (Inl ValueError) \<or>
          amortize_nl fl fuel m2 addl_pmt d2 = Some (Inl ValueError) \<or>
          map_option (map_sum id (map (df_Date_update (\<lambda>_. d)))) (amortize_nl fl fuel m2 addl_pmt d1) =
            map_option (map_sum id (map (df_Date_update (\<lambda>_. d)))) (amortize_nl fl fuel m2 addl_pmt d2))"
proof (intro conjI impI)
  assume "year d1 = year d2 \<and> month d1 = month d2"
  then have "year d1 = year d2" "month d1 = month d2" by simp_all
  then have eq: "first_start_date d1 = first_start_date d2"
    by (rule first_start_date_month)
  show "amortize_ca fl fuel m addl_pmt d1 = amortize_ca fl fuel m addl_pmt d2"
    unfolding amortize_ca_def amortizdict_ca_def generator_def eq ..
  show "amortize_nl fl fuel m2 addl_pmt d1 = amortize_nl fl fuel m2 addl_pmt d2"
    unfolding amortize_nl_def amortizdict_nl_def generator_def eq ..
next
  from generator_today [of fl fuel "fl (amortizdict_rate_ca m)" 2 "monthly_payment_ca m" addl_pmt
      "principal m" d1 d2 d]
  consider "amortizdict_ca fl fuel m addl_pmt d1 = Some (Inl ValueError)"
    | "amortizdict_ca fl fuel m addl_pmt d2 = Some (Inl ValueError)"
    | "map_option (map_sum id (map (Date_update (\<lambda>_. d)))) (amortizdict_ca fl fuel m addl_pmt d1) =
       map_option (map_sum id (map (Date_update (\<lambda>_. d)))) (amortizdict_ca fl fuel m addl_pmt d2)"
    unfolding amortizdict_ca_def by blast
  then show "amortize_ca fl fuel m addl_pmt d1 = Some (Inl ValueError) \<or>
      amortize_ca fl fuel m addl_pmt d2 = Some (Inl ValueError) \<or>
      map_option (map_sum id (map (df_Date_update (\<lambda>_. d)))) (amortize_ca fl fuel m addl_pmt d1) =
        map_option (map_sum id (map (df_Date_update (\<lambda>_. d)))) (amortize_ca fl fuel m addl_pmt d2)"
  proof cases
    case 1
    then have "amortize_ca fl fuel m addl_pmt d1 = Some (Inl ValueError)"
      by (simp add: amortize_ca_def)
    then show ?thesis by blast
  next
    case 2
    then have "amortize_ca fl fuel m addl_pmt d2 = Some (Inl ValueError)"
      by (simp add: amortize_ca_def)
    then show ?thesis by blast
  next
    case 3
    have "map_option (map_sum id (map (df_Date_update (\<lambda>_. d)))) (amortize_ca fl fuel m addl_pmt d1) =
        map_option (map_sum id (map (df_Date_update (\<lambda>_. d)))) (amortize_ca fl fuel m addl_pmt d2)"
      unfolding amortize_ca_def frame_ca_Date 3 ..
    then show ?thesis by blast
  qed
next
  from generator_today [of fl fuel "fl (rate m2 / 12)" 0 "monthly_payment_nl m2" addl_pmt
      "principal m2" d1 d2 d]
  consider "amortizdict_nl fl fuel m2 addl_pmt d1 = Some (Inl ValueError)"
    | "amortizdict_nl fl fuel m2 addl_pmt d2 = Some (Inl ValueError)"
    | "map_option (map_sum id (map (Date_update (\<lambda>_. d)))) (amortizdict_nl fl fuel m2 addl_pmt d1) =
       map_option (map_sum id (map (Date_update (\<lambda>_. d)))) (amortizdict_nl fl fuel m2 addl_pmt d2)"
    unfolding amortizdict_nl_def by blast
  then show "amortize_nl fl fuel m2 addl_pmt d1 = Some (Inl ValueError) \<or>
      amortize_nl fl fuel m2 addl_pmt d2 = Some (Inl ValueError) \<or>
      map_option (map_sum id (map (df_Date_update (\<lambda>_. d)))) (amortize_nl fl fuel m2 addl_pmt d1) =
        map_option (map_sum id (map (df_Date_update (\<lambda>_. d)))) (amortize_nl fl fuel m2 addl_pmt d2)"
  proof cases
    case 1
    then have "amortize_nl fl fuel m2 addl_pmt d1 = Some (Inl ValueError)"
      by (simp add: amortize_nl_def)
    then show ?thesis by blast
  next
    case 2
    then have "amortize_nl fl fuel m2 addl_pmt d2 = Some (Inl ValueError)"
      by (simp add: amortize_nl_def)
    then show ?thesis by blast
  next
    case 3
    have "map_option (map_sum id (map (df_Date_update (\<lambda>_. d)))) (amortize_nl fl fuel m2 addl_pmt d1) =
        map_option (map_sum id (map (df_Date_update (\<lambda>_. d)))) (amortize_nl fl fuel m2 addl_pmt d2)"
      unfolding amortize_nl_def frame_nl_Date 3 ..
    then show ?thesis by blast
  qed
qed

theorem amortize_depends_on_month_witness:
  "year today0 = year \<lparr>year = 2024, month = 1, day = 20\<rparr> \<and>
   month today0 = month \<lparr>year = 2024, month = 1, day = 20\<rparr> \<and>
   amortize_ca exact 20 loan_0 0 today0 =
     Some (Inr (map (to_df_row exact) (yielded_ca exact 20 loan_0 0 today0))) \<and>
   amortize_ca exact 20 loan_0 0 today0 = amortize_ca exact 20 loan_0 0 \<lparr>year = 2024, month = 1, day = 20\<rparr> \<and>
   amortize_nl exact 20 loan_1000 0 today0 = amortize_nl exact 20 loan_1000 0 \<lparr>year = 2024, month = 1, day = 20\<rparr> \<and>
   amortize_ca exact 20 loan_0 0 today1 =
     Some (Inr (map (to_df_row exact) (yielded_ca exact 20 loan_0 0 today1))) \<and>
   map_option (map_sum id (map (df_Date_update (\<lambda>_. today0)))) (amortize_ca exact 20 loan_0 0 today0) =
     map_option (map_sum id (map (df_Date_update (\<lambda>_. today0)))) (amortize_ca exact 20 loan_0 0 today1)"
proof -
  have h: "year today0 = year \<lparr>year = 2024, month = 1, day = 20\<rparr> \<and>
      month today0 = month \<lparr>year = 2024, month = 1, day = 20\<rparr>" by simp
  have "yielded_ca exact 20 loan_0 0 today0 \<noteq> []" using Date_loan_0_today0 by auto
  then have a0: "amortize_ca exact 20 loan_0 0 today0 =
      Some (Inr (map (to_df_row exact) (yielded_ca exact 20 loan_0 0 today0)))"
    unfolding amortize_ca_def run_loan_0 by (simp add: data_frame_def)
  have "yielded_ca exact 20 loan_0 0 today1 \<noteq> []" using Date_loan_0_today1 by auto
  then have a1: "amortize_ca exact 20 loan_0 0 today1 =
      Some (Inr (map (to_df_row exact) (yielded_ca exact 20 loan_0 0 today1)))"
    unfolding amortize_ca_def run_loan_0_today1 by (simp add: data_frame_def)
  from a0 have n0: "amortize_ca exact 20 loan_0 0 today0 \<noteq> Some (Inl ValueError)" by simp
  from a1 have n1: "amortize_ca exact 20 loan_0 0 today1 \<noteq> Some (Inl ValueError)" by simp
  from amortize_depends_on_month [where ?d1.0 = today0 and ?d2.0 = "\<lparr>year = 2024, month = 1, day = 20\<rparr>"
      and fl = exact and fuel = 20 and m = loan_0 and addl_pmt = 0 and ?m2.0 = loan_1000] h
  have s: "amortize_ca exact 20 loan_0 0 today0 = amortize_ca exact 20 loan_0 0 \<lparr>year = 2024, month = 1, day = 20\<rparr>"
    "amortize_nl exact 20 loan_1000 0 today0 = amortize_nl exact 20 loan_1000 0 \<lparr>year = 2024, month = 1, day = 20\<rparr>"
    by blast+
  from amortize_depends_on_month [where ?d1.0 = today0 and ?d2.0 = today1
      and fl = exact and fuel = 20 and m = loan_0 and addl_pmt = 0 and ?m2.0 = loan_1000
      and d = today0] n0 n1
  have e: "map_option (map_sum id (map (df_Date_update (\<lambda>_. today0)))) (amortize_ca exact 20 loan_0 0 today0) =
     map_option (map_sum id (map (df_Date_update (\<lambda>_. today0)))) (amortize_ca exact 20 loan_0 0 today1)"
    by blast
  from h a0 a1 s e show ?thesis by blast
qed

end
